theory Spec2Isabelle
  imports Complex_Main "HOL-Library.Char_ord" "HOL-Library.List_Lexorder"
begin

section \<open>Data model\<close>

text \<open>
  A time entry is the JavaScript object \<^verbatim>\<open>{type, time?, hours?}\<close>. The field \<open>type\<close> is one
  of the four strings \<^verbatim>\<open>'entrata'\<close> (clock-in), \<^verbatim>\<open>'uscita'\<close> (clock-out), \<^verbatim>\<open>'smart'\<close>
  (smart working) and \<^verbatim>\<open>'assente'\<close> (absent). An optional field that is missing reads as
  \<^verbatim>\<open>undefined\<close> in JavaScript and is \<open>None\<close> here. Decimal hours are exact rationals and
  minute counts are integers: the rounding error of IEEE doubles is outside the model.
\<close>

datatype entry_type = Entrata | Uscita | Smart | Assente

record entry =
  type :: entry_type
  time :: "string option"
  hours :: "rat option"

text \<open>
  An \<^verbatim>\<open>entries\<close> argument is an array or is null/undefined (\<open>None\<close>). A week is the object
  \<^verbatim>\<open>{dateKey: [entries]}\<close>, an association list in insertion order whose keys are distinct.
\<close>

type_synonym entries = "entry list option"

type_synonym week = "(string \<times> entries) list"

section \<open>Imported helpers\<close>

text \<open>
  \<^verbatim>\<open>TimeCalculator.js\<close> imports \<^verbatim>\<open>parseTimeToMinutes\<close> and \<^verbatim>\<open>minutesToTime\<close> from
  \<^verbatim>\<open>utils/Validators.js\<close>, and \<^verbatim>\<open>isFriday\<close> and \<^verbatim>\<open>parseDateISO\<close> from
  \<^verbatim>\<open>utils/DateUtils.js\<close>. The calculator is parametric in them: every function below takes
  the record of the four imported functions as its first argument. \<open>parseTimeToMinutes\<close>
  returns \<open>None\<close> for JavaScript's null; \<open>'d\<close> is the type of the date objects.
\<close>

record 'd helpers =
  parseTimeToMinutes :: "string option \<Rightarrow> int option"
  minutesToTime :: "int \<Rightarrow> string"
  isFriday :: "'d \<Rightarrow> bool"
  parseDateISO :: "string \<Rightarrow> 'd"

section \<open>Configuration\<close>

definition WEEKLY_TARGET_HOURS :: int where
  "WEEKLY_TARGET_HOURS = 36"


definition PAUSE_MINUTES :: int where
  "PAUSE_MINUTES = 30"

definition PAUSE_THRESHOLD_HOURS :: rat where
  "PAUSE_THRESHOLD_HOURS = 6"

definition SMART_HOURS_DEFAULT :: rat where
  "SMART_HOURS_DEFAULT = 15 / 2"

definition SMART_HOURS_FRIDAY :: rat where
  "SMART_HOURS_FRIDAY = 6"

definition DAILY_TARGET_HOURS :: rat where
  "DAILY_TARGET_HOURS = 15 / 2"

definition FRIDAY_TARGET_HOURS :: rat where
  "FRIDAY_TARGET_HOURS = 6"

section \<open>Pair resolution: \<^verbatim>\<open>calculatePairMinutes\<close>\<close>

record pair_minutes =
  workedMinutes :: int
  hasIncomplete :: bool
  pairCount :: nat
  breakMinutes :: int

text \<open>Reading a JavaScript array past its end gives \<^verbatim>\<open>undefined\<close>.\<close>

definition js_index :: "'a option list \<Rightarrow> nat \<Rightarrow> 'a option" where
  "js_index xs i = (if i < length xs then xs ! i else None)"

text \<open>
  One round of the loop \<^verbatim>\<open>for (let i = 0; i < pairs; i++)\<close>, on the two accumulators
  \<^verbatim>\<open>workedMinutes\<close> and \<^verbatim>\<open>breakMinutes\<close> (here \<open>worked\<close> and \<open>break\<close>).
\<close>

fun pairStep ::
  "'d helpers \<Rightarrow> string option list \<Rightarrow> string option list \<Rightarrow> nat \<Rightarrow> nat \<Rightarrow> int \<times> int \<Rightarrow> int \<times> int"
where
  "pairStep H entrate uscite pairs i (worked, break) =
     (let entrataMinutes = parseTimeToMinutes H (js_index entrate i);
          uscitaMinutes = parseTimeToMinutes H (js_index uscite i);
          worked' =
            (case entrataMinutes of
               None \<Rightarrow> worked
             | Some a \<Rightarrow>
                (case uscitaMinutes of
                   None \<Rightarrow> worked
                 | Some b \<Rightarrow>
                     let diff = b - a
                     in if diff > 0 then worked + diff else worked));
          break' =
            (if int i < int pairs - 1 then
               let exitMin = parseTimeToMinutes H (js_index uscite i);
                   nextEntryMin = parseTimeToMinutes H (js_index entrate (i + 1))
               in (case exitMin of
                     None \<Rightarrow> break
                   | Some x \<Rightarrow>
                      (case nextEntryMin of
                         None \<Rightarrow> break
                       | Some n \<Rightarrow>
                           if n > x then break + (n - x) else break))
             else break)
      in (worked', break'))"

definition calculatePairMinutes :: "'d helpers \<Rightarrow> entry list \<Rightarrow> pair_minutes" where
  "calculatePairMinutes H entries =
     (let entrate = map time (filter (\<lambda>e. type e = Entrata) entries);
          uscite = map time (filter (\<lambda>e. type e = Uscita) entries);
          incomplete = (length entrate > length uscite);
          pairs = min (length entrate) (length uscite);
          acc = fold (pairStep H entrate uscite pairs) [0..<pairs] (0, 0)
      in \<lparr>workedMinutes = fst acc, hasIncomplete = incomplete,
          pairCount = pairs, breakMinutes = snd acc\<rparr>)"

section \<open>Day accounting: \<^verbatim>\<open>calculateDayHours\<close>\<close>

record day_hours =
  minutes :: int
  formatted :: string
  hasIncomplete :: bool
  grossMinutes :: "int option"
  pauseApplied :: "bool option"
  breakMinutes :: "int option"

definition shouldApplyPause :: "'d helpers \<Rightarrow> int \<Rightarrow> string \<Rightarrow> bool" where
  "shouldApplyPause H worked dateKey =
     (if isFriday H (parseDateISO H dateKey) then False
      else
        let workedHours = (of_int worked :: rat) / 60
        in workedHours > PAUSE_THRESHOLD_HOURS)"

definition hoursToMinutes :: "rat \<Rightarrow> int" where
  "hoursToMinutes h = round (h * 60)"

text \<open>
  The local variable \<^verbatim>\<open>pauseMinutes\<close> of \<^verbatim>\<open>calculateDayHours\<close> (lines 58 to 73): it starts
  at 0 and is assigned only when the date is not a Friday.
\<close>

definition pauseMinutes :: "'d helpers \<Rightarrow> string \<Rightarrow> pair_minutes \<Rightarrow> int" where
  "pauseMinutes H dateKey p =
     (let friday = isFriday H (parseDateISO H dateKey)
      in if \<not> friday then
           if pairCount p \<le> 1 then
             (if shouldApplyPause H (workedMinutes p) dateKey then PAUSE_MINUTES else 0)
           else if pair_minutes.breakMinutes p < PAUSE_MINUTES then
             PAUSE_MINUTES - pair_minutes.breakMinutes p
           else 0
         else 0)"

definition calculateDayHours :: "'d helpers \<Rightarrow> entries \<Rightarrow> string \<Rightarrow> day_hours" where
  "calculateDayHours H entries dateKey =
     (case entries of
        None \<Rightarrow>
          \<lparr>minutes = 0, formatted = ''00:00'', hasIncomplete = False,
           grossMinutes = None, pauseApplied = None, breakMinutes = None\<rparr>
      | Some es \<Rightarrow>
          if length es = 0 then
            \<lparr>minutes = 0, formatted = ''00:00'', hasIncomplete = False,
             grossMinutes = None, pauseApplied = None, breakMinutes = None\<rparr>
          else if length es = 1 \<and> (type (es ! 0) = Smart \<or> type (es ! 0) = Assente) then
            let h = (case hours (es ! 0) of None \<Rightarrow> 0 | Some x \<Rightarrow> x);
                m = round (h * 60)
            in \<lparr>minutes = m, formatted = minutesToTime H m, hasIncomplete = False,
                grossMinutes = None, pauseApplied = None, breakMinutes = None\<rparr>
          else
            let p = calculatePairMinutes H es;
                pause = pauseMinutes H dateKey p;
                netMinutes = max 0 (workedMinutes p - pause)
            in \<lparr>minutes = netMinutes, formatted = minutesToTime H netMinutes,
                hasIncomplete = pair_minutes.hasIncomplete p,
                grossMinutes = Some (workedMinutes p),
                pauseApplied = Some (pause > 0),
                breakMinutes =
                  Some (if pairCount p > 1 then pair_minutes.breakMinutes p
                        else if pause > 0 then PAUSE_MINUTES else 0)\<rparr>)"

section \<open>Week accounting\<close>

record week_total =
  minutes :: int
  formatted :: string
  byDay :: "(string \<times> day_hours) list"



record balance =
  minutes :: int
  formatted :: string
  isPositive :: bool
  isNegative :: bool
  isNeutral :: bool


record remaining =
  minutes :: int
  formatted :: string


section \<open>Daily delta: \<^verbatim>\<open>calculateDayDelta\<close>\<close>

definition getDailyTarget :: "'d helpers \<Rightarrow> string \<Rightarrow> rat" where
  "getDailyTarget H dateKey =
     (if isFriday H (parseDateISO H dateKey) then FRIDAY_TARGET_HOURS else DAILY_TARGET_HOURS)"

text \<open>The decimal digits of a natural number, as a template literal prints it.\<close>

fun showNat :: "nat \<Rightarrow> string" where
  "showNat n =
     (if n < 10 then [char_of (48 + n)]
      else showNat (n div 10) @ [char_of (48 + n mod 10)])"

declare showNat.simps [simp del]

definition formatDeltaMinutes :: "int \<Rightarrow> string" where
  "formatDeltaMinutes m =
     (let sign = (if m \<ge> 0 then ''+'' else ''-'');
          absMinutes = nat \<bar>m\<bar>;
          h = absMinutes div 60;
          mins = absMinutes mod 60
      in if h = 0 then sign @ showNat mins @ ''min''
         else if mins = 0 then sign @ showNat h @ ''h''
         else sign @ showNat h @ ''h '' @ showNat mins @ ''m'')"

record day_delta =
  minutes :: int
  formatted :: string
  isPositive :: bool
  isNegative :: bool
  isNeutral :: bool
  hasIncomplete :: bool

definition calculateDayDelta :: "'d helpers \<Rightarrow> entries \<Rightarrow> string \<Rightarrow> day_delta option" where
  "calculateDayDelta H entries dateKey =
     (case entries of
        None \<Rightarrow> None
      | Some es \<Rightarrow>
          if length es = 0 then None
          else if length es = 1 \<and> type (es ! 0) = Assente then None
          else
            let dayHours = calculateDayHours H entries dateKey;
                targetMinutes = hoursToMinutes (getDailyTarget H dateKey);
                deltaMinutes = day_hours.minutes dayHours - targetMinutes
            in Some \<lparr>minutes = deltaMinutes,
                     formatted = formatDeltaMinutes deltaMinutes,
                     isPositive = (deltaMinutes > 0),
                     isNegative = (deltaMinutes < 0),
                     isNeutral = (deltaMinutes = 0),
                     hasIncomplete = day_hours.hasIncomplete dayHours\<rparr>)"

section \<open>Friday exit suggestion: \<^verbatim>\<open>calculateFridayExitSuggestion\<close>\<close>

record friday_suggestion =
  exitTime :: "string option"
  extraMinutes :: int
  fridayTargetMinutes :: int
  fridayDateKey :: string
  hasFridayEntrata :: bool
  hasFridayComplete :: bool

text \<open>
  \<^verbatim>\<open>weekEntries[dateKey]\<close>: the value stored under the key, \<^verbatim>\<open>undefined\<close> when the key is
  missing.
\<close>

definition lookup :: "week \<Rightarrow> string \<Rightarrow> entries" where
  "lookup weekEntries dateKey =
     (case map_of weekEntries dateKey of None \<Rightarrow> None | Some es \<Rightarrow> es)"

text \<open>
  One round of \<^verbatim>\<open>for (const dateKey of sortedDates)\<close>, on the accumulator
  \<^verbatim>\<open>extraMinutes\<close>.
\<close>

definition extraStep :: "'d helpers \<Rightarrow> week \<Rightarrow> string \<Rightarrow> string \<Rightarrow> int \<Rightarrow> int" where
  "extraStep H weekEntries fridayKey dateKey extra =
     (if dateKey = fridayKey then extra
      else
        (case lookup weekEntries dateKey of
           None \<Rightarrow> extra
         | Some es \<Rightarrow>
             if length es = 0 then extra
             else
               (case calculateDayDelta H (Some es) dateKey of
                  None \<Rightarrow> extra
                | Some delta \<Rightarrow>
                    if \<not> day_delta.hasIncomplete delta then extra + day_delta.minutes delta
                    else extra)))"

text \<open>
  \<^verbatim>\<open>Object.keys(weekEntries).sort()\<close> orders the keys as strings, character by character.
  \<^verbatim>\<open>!fridayDateKey\<close> holds when \<^verbatim>\<open>find\<close> gave \<^verbatim>\<open>undefined\<close> and when it gave the empty
  string.
\<close>

definition calculateFridayExitSuggestion :: "'d helpers \<Rightarrow> week \<Rightarrow> friday_suggestion option" where
  "calculateFridayExitSuggestion H weekEntries =
     (let sortedDates = sort (map fst weekEntries)
      in if length sortedDates = 0 then None
         else
           (case find (\<lambda>dk. isFriday H (parseDateISO H dk)) sortedDates of
              None \<Rightarrow> None
            | Some fridayKey \<Rightarrow>
                if fridayKey = [] then None
                else
                  let extra = fold (extraStep H weekEntries fridayKey) sortedDates 0;
                      fridayEntries =
                        (case lookup weekEntries fridayKey of None \<Rightarrow> [] | Some es \<Rightarrow> es);
                      hasEntrata = list_ex (\<lambda>e. type e = Entrata) fridayEntries;
                      hasUscita = list_ex (\<lambda>e. type e = Uscita) fridayEntries;
                      isFridaySpecial =
                        (length fridayEntries = 1 \<and>
                         (type (fridayEntries ! 0) = Smart \<or> type (fridayEntries ! 0) = Assente))
                  in if isFridaySpecial then None
                     else
                       let targetMinutes = hoursToMinutes FRIDAY_TARGET_HOURS;
                           adjustedTarget = max 0 (targetMinutes - extra);
                           exit =
                             (if hasEntrata \<and> \<not> hasUscita then
                                (case find (\<lambda>e. type e = Entrata) fridayEntries of
                                   None \<Rightarrow> None
                                 | Some entrataEntry \<Rightarrow>
                                    (case parseTimeToMinutes H (time entrataEntry) of
                                       None \<Rightarrow> None
                                     | Some entrataMin \<Rightarrow>
                                         let exitMin = entrataMin + adjustedTarget
                                         in Some (minutesToTime H exitMin)))
                              else None)
                       in Some \<lparr>exitTime = exit,
                                extraMinutes = extra,
                                fridayTargetMinutes = adjustedTarget,
                                fridayDateKey = fridayKey,
                                hasFridayEntrata = hasEntrata,
                                hasFridayComplete = (hasUscita \<and> hasEntrata)\<rparr>))"

section \<open>The helpers of \<^verbatim>\<open>utils/Validators.js\<close> and \<^verbatim>\<open>utils/DateUtils.js\<close>\<close>

definition isDigit :: "char \<Rightarrow> bool" where
  "isDigit c = (48 \<le> (of_char c :: nat) \<and> (of_char c :: nat) \<le> 57)"

definition digitVal :: "char \<Rightarrow> nat" where
  "digitVal c = of_char c - 48"

text \<open>
  Modelled from the spec: \<^verbatim>\<open>parseTimeToMinutes\<close> of \<^verbatim>\<open>utils/Validators.js\<close> is not among
  the sources. Section 4.1: \<^verbatim>\<open>parseTime(s)\<close> parses \<^verbatim>\<open>HH:MM\<close> (24-hour) into minutes
  since midnight and returns null, not an exception, for malformed input.
\<close>

fun parseTime :: "string \<Rightarrow> int option" where
  "parseTime [h1, h2, c, m1, m2] =
     (if c = CHR '':'' \<and> isDigit h1 \<and> isDigit h2 \<and> isDigit m1 \<and> isDigit m2 then
        let h = 10 * digitVal h1 + digitVal h2;
            m = 10 * digitVal m1 + digitVal m2
        in if h \<le> 23 \<and> m \<le> 59 then Some (int (60 * h + m)) else None
      else None)"
| "parseTime _ = None"

text \<open>
  The well-formed time strings, in the words of the spec: two digits, a colon, two digits,
  the hour at most 23 and the minute at most 59.
\<close>

definition wellFormedTime :: "string \<Rightarrow> bool" where
  "wellFormedTime s =
     (length s = 5 \<and> s ! 2 = CHR '':'' \<and>
      isDigit (s ! 0) \<and> isDigit (s ! 1) \<and> isDigit (s ! 3) \<and> isDigit (s ! 4) \<and>
      10 * digitVal (s ! 0) + digitVal (s ! 1) \<le> 23 \<and>
      10 * digitVal (s ! 3) + digitVal (s ! 4) \<le> 59)"

text \<open>
  Modelled from the spec: \<^verbatim>\<open>minutesToTime\<close> of \<^verbatim>\<open>utils/Validators.js\<close> is not among the
  sources. Section 4.1: \<^verbatim>\<open>formatMinutes(m)\<close> computes \<^verbatim>\<open>hours = floor(|m|/60)\<close> and
  \<^verbatim>\<open>mins = |m| mod 60\<close> and renders them sign-prefixed as zero-padded \<^verbatim>\<open>HH:MM\<close>.
\<close>

definition pad2 :: "nat \<Rightarrow> string" where
  "pad2 n = (if n < 10 then ''0'' @ showNat n else showNat n)"

definition formatMinutes :: "int \<Rightarrow> string" where
  "formatMinutes m =
     (let a = nat \<bar>m\<bar>;
          h = a div 60;
          mins = a mod 60;
          sign = (if m < 0 then ''-'' else [])
      in sign @ pad2 h @ '':'' @ pad2 mins)"

text \<open>
  Modelled from the spec: \<^verbatim>\<open>parseDateISO\<close> and \<^verbatim>\<open>isFriday\<close> of \<^verbatim>\<open>utils/DateUtils.js\<close> are
  not among the sources. Section 4.2: the weekday test uses a date constructed from the
  separately parsed year, month and day integers of the \<^verbatim>\<open>YYYY-MM-DD\<close> key. A date is the
  triple (year, month, day) and \<open>None\<close> is an invalid date, which is no Friday; the weekday
  is the one of the Gregorian calendar, 0 for Sunday to 6 for Saturday.
\<close>

type_synonym date = "(nat \<times> nat \<times> nat) option"

fun specParseDateISO :: "string \<Rightarrow> date" where
  "specParseDateISO [y1, y2, y3, y4, s1, m1, m2, s2, d1, d2] =
     (if s1 = CHR ''-'' \<and> s2 = CHR ''-'' \<and> list_all isDigit [y1, y2, y3, y4, m1, m2, d1, d2] then
        let y = 1000 * digitVal y1 + 100 * digitVal y2 + 10 * digitVal y3 + digitVal y4;
            m = 10 * digitVal m1 + digitVal m2;
            d = 10 * digitVal d1 + digitVal d2
        in if 1 \<le> m \<and> m \<le> 12 \<and> 1 \<le> d \<and> d \<le> 31 then Some (y, m, d) else None
      else None)"
| "specParseDateISO _ = None"

definition weekday :: "nat \<Rightarrow> nat \<Rightarrow> nat \<Rightarrow> nat" where
  "weekday y m d =
     (let y' = (if m < 3 then int y - 1 else int y);
          t = [0, 3, 2, 5, 0, 3, 5, 1, 4, 6, 2, 4 :: int]
      in nat ((y' + y' div 4 - y' div 100 + y' div 400 + t ! (m - 1) + int d) mod 7))"

definition specIsFriday :: "date \<Rightarrow> bool" where
  "specIsFriday dt = (case dt of None \<Rightarrow> False | Some (y, m, d) \<Rightarrow> weekday y m d = 5)"

definition specHelpers :: "date helpers" where
  "specHelpers =
     \<lparr>parseTimeToMinutes = (\<lambda>t. case t of None \<Rightarrow> None | Some s \<Rightarrow> parseTime s),
      minutesToTime = formatMinutes,
      isFriday = specIsFriday,
      parseDateISO = specParseDateISO\<rparr>"

section \<open>Reference definitions for the statements\<close>

text \<open>
  The contribution of one pair or of one pair boundary as the specification words it: the
  difference of the two parsed times when both parse and the difference is positive, zero
  otherwise.
\<close>

definition positiveDiff :: "int option \<Rightarrow> int option \<Rightarrow> int" where
  "positiveDiff a b =
     (case a of
        None \<Rightarrow> 0
      | Some x \<Rightarrow> (case b of None \<Rightarrow> 0 | Some y \<Rightarrow> if y - x > 0 then y - x else 0))"

text \<open>
  The contribution of one date key to the extra minutes as the specification words it: the
  minutes of the day's delta, when the day has entries and its delta exists and does not
  carry \<open>hasIncomplete\<close>; zero otherwise.
\<close>

definition deltaContribution :: "'d helpers \<Rightarrow> week \<Rightarrow> string \<Rightarrow> int" where
  "deltaContribution H weekEntries dateKey =
     (case lookup weekEntries dateKey of
        None \<Rightarrow> 0
      | Some es \<Rightarrow>
          if es = [] then 0
          else
            (case calculateDayDelta H (Some es) dateKey of
               None \<Rightarrow> 0
             | Some delta \<Rightarrow>
                 if day_delta.hasIncomplete delta then 0 else day_delta.minutes delta))"

text \<open>
  The entries of a date key, \<^verbatim>\<open>weekEntries[dateKey] || []\<close>: none when the key is missing
  or holds null.
\<close>

definition dayEntries :: "week \<Rightarrow> string \<Rightarrow> entry list" where
  "dayEntries weekEntries dateKey =
     (case lookup weekEntries dateKey of None \<Rightarrow> [] | Some es \<Rightarrow> es)"

text \<open>A day that is a sole smart-working or absent record.\<close>

definition soleSpecial :: "entry list \<Rightarrow> bool" where
  "soleSpecial es = (case es of [e] \<Rightarrow> type e = Smart \<or> type e = Assente | _ \<Rightarrow> False)"



section \<open>Example inputs\<close>

definition clockIn :: "string \<Rightarrow> entry" where
  "clockIn t = \<lparr>type = Entrata, time = Some t, hours = None\<rparr>"

definition clockOut :: "string \<Rightarrow> entry" where
  "clockOut t = \<lparr>type = Uscita, time = Some t, hours = None\<rparr>"

definition smartDay :: "rat \<Rightarrow> entry" where
  "smartDay h = \<lparr>type = Smart, time = None, hours = Some h\<rparr>"

definition absentDay :: "rat \<Rightarrow> entry" where
  "absentDay h = \<lparr>type = Assente, time = None, hours = Some h\<rparr>"

text \<open>
  A week of February 2026: Monday the 23rd closes 30 minutes over target, Tuesday 15
  minutes over, Wednesday has an open clock-in, Thursday is a smart-working day and Friday
  the 27th has a single clock-in at 07:50.
\<close>

definition exampleWeek :: week where
  "exampleWeek =
     [(''2026-02-27'', Some [clockIn ''07:50'']),
      (''2026-02-23'', Some [clockIn ''08:00'', clockOut ''16:30'']),
      (''2026-02-24'', Some [clockIn ''08:00'', clockOut ''16:15'']),
      (''2026-02-25'', Some [clockIn ''08:00'']),
      (''2026-02-26'', Some [smartDay (15 / 2)])]"


section \<open>Verified properties\<close>

subsection \<open>Auxiliary facts\<close>

lemma hoursToMinutes_targets:
  "hoursToMinutes FRIDAY_TARGET_HOURS = 360" "hoursToMinutes DAILY_TARGET_HOURS = 450"
  by (simp_all add: hoursToMinutes_def FRIDAY_TARGET_HOURS_def DAILY_TARGET_HOURS_def)

lemma shouldApplyPause_iff:
  "shouldApplyPause H w dk = (\<not> isFriday H (parseDateISO H dk) \<and> w > 360)"
  by (simp add: shouldApplyPause_def PAUSE_THRESHOLD_HOURS_def Let_def field_simps)

lemma pairStep_in_range:
  assumes "i < n" "n \<le> length ins" "n \<le> length outs"
  shows "pairStep H ins outs n i (w, b) =
    (w + positiveDiff (parseTimeToMinutes H (ins ! i)) (parseTimeToMinutes H (outs ! i)),
     b + (if Suc i < n
          then positiveDiff (parseTimeToMinutes H (outs ! i)) (parseTimeToMinutes H (ins ! Suc i))
          else 0))"
proof -
  have idx: "js_index ins i = ins ! i" "js_index outs i = outs ! i"
    using assms by (simp_all add: js_index_def)
  have nxt: "Suc i < n \<Longrightarrow> js_index ins (Suc i) = ins ! Suc i"
    using assms by (simp add: js_index_def)
  have cond: "(int i < int n - 1) = (Suc i < n)" by linarith
  show ?thesis
    by (auto simp add: idx nxt cond positiveDiff_def Let_def split: option.splits)
qed

lemma fold_pairStep:
  assumes "n \<le> length ins" "n \<le> length outs"
  shows "k \<le> n \<Longrightarrow>
    fold (pairStep H ins outs n) [0..<k] (w, b) =
      (w + (\<Sum>i<k. positiveDiff (parseTimeToMinutes H (ins ! i)) (parseTimeToMinutes H (outs ! i))),
       b + (\<Sum>i<min k (n - 1).
              positiveDiff (parseTimeToMinutes H (outs ! i)) (parseTimeToMinutes H (ins ! Suc i))))"
proof (induction k)
  case 0
  then show ?case by simp
next
  case (Suc k)
  then have k: "k < n" "k \<le> n" by simp_all
  show ?case
  proof (cases "Suc k < n")
    case True
    then have m: "min (Suc k) (n - 1) = Suc k" "min k (n - 1) = k" by simp_all
    show ?thesis
      using True
      by (simp del: pairStep.simps add: Suc.IH [OF k(2)] pairStep_in_range [OF k(1) assms] m)
  next
    case False
    with k have m: "min (Suc k) (n - 1) = k" "min k (n - 1) = k" by simp_all
    show ?thesis
      using False
      by (simp del: pairStep.simps add: Suc.IH [OF k(2)] pairStep_in_range [OF k(1) assms] m)
  qed
qed

subsection \<open>Break policy\<close>

text \<open>
  C1. For every entry list that takes the pair path of \<^verbatim>\<open>calculateDayHours\<close> (it is not
  empty and not a single smart-working or absent entry), the pause deducted is 0 on a
  Friday, whatever the pairs and the hours, so that \<open>pauseApplied\<close> is false; on another
  day with at most one pair it is 30 exactly when the worked minutes exceed 360, and 0
  otherwise; on another day with two or more pairs it is \<open>max 0 (30 - breakMinutes)\<close>. The
  net minutes are the worked minutes less that pause, never below 0.
\<close>

theorem break_policy:
  "es \<noteq> [] \<Longrightarrow>
   \<not> (length es = 1 \<and> (type (es ! 0) = Smart \<or> type (es ! 0) = Assente)) \<Longrightarrow>
   (let p = calculatePairMinutes H es;
        friday = isFriday H (parseDateISO H dk);
        pause = pauseMinutes H dk p;
        r = calculateDayHours H (Some es) dk
    in (friday \<longrightarrow> pause = 0 \<and> pauseApplied r = Some False) \<and>
       (\<not> friday \<and> pairCount p \<le> 1 \<longrightarrow> pause = (if workedMinutes p > 360 then 30 else 0)) \<and>
       (\<not> friday \<and> pairCount p \<ge> 2 \<longrightarrow> pause = max 0 (30 - pair_minutes.breakMinutes p)) \<and>
       day_hours.minutes r = max 0 (workedMinutes p - pause) \<and>
       grossMinutes r = Some (workedMinutes p) \<and>
       pauseApplied r = Some (pause > 0))"
  by (auto simp add: calculateDayHours_def pauseMinutes_def shouldApplyPause_iff
      PAUSE_MINUTES_def Let_def)

text \<open>The example dates and four example days, evaluated.\<close>

lemma friday_examples:
  "isFriday specHelpers (parseDateISO specHelpers ''2026-02-27'')"
  "\<not> isFriday specHelpers (parseDateISO specHelpers ''2026-02-23'')"
  "\<not> isFriday specHelpers (parseDateISO specHelpers ''2026-02-24'')"
  "\<not> isFriday specHelpers (parseDateISO specHelpers ''2026-02-25'')"
  "\<not> isFriday specHelpers (parseDateISO specHelpers ''2026-02-26'')"
  by code_simp+

lemma pair_examples:
  "calculatePairMinutes specHelpers [clockIn ''08:00'', clockOut ''17:00''] =
     \<lparr>workedMinutes = 540, hasIncomplete = False, pairCount = 1, breakMinutes = 0\<rparr>"
  "calculatePairMinutes specHelpers [clockIn ''08:00'', clockOut ''14:01''] =
     \<lparr>workedMinutes = 361, hasIncomplete = False, pairCount = 1, breakMinutes = 0\<rparr>"
  "calculatePairMinutes specHelpers [clockIn ''08:00'', clockOut ''14:00''] =
     \<lparr>workedMinutes = 360, hasIncomplete = False, pairCount = 1, breakMinutes = 0\<rparr>"
  "calculatePairMinutes specHelpers
     [clockIn ''08:00'', clockOut ''12:00'', clockIn ''12:20'', clockOut ''16:10''] =
     \<lparr>workedMinutes = 470, hasIncomplete = False, pairCount = 2, breakMinutes = 20\<rparr>"
  by code_simp+

theorem break_policy_witness:
  "isFriday specHelpers (parseDateISO specHelpers ''2026-02-27'') \<and>
   pauseMinutes specHelpers ''2026-02-27''
     (calculatePairMinutes specHelpers [clockIn ''08:00'', clockOut ''17:00'']) = 0 \<and>
   pauseApplied (calculateDayHours specHelpers (Some [clockIn ''08:00'', clockOut ''17:00''])
     ''2026-02-27'') = Some False \<and>
   \<not> isFriday specHelpers (parseDateISO specHelpers ''2026-02-24'') \<and>
   pairCount (calculatePairMinutes specHelpers [clockIn ''08:00'', clockOut ''14:01'']) \<le> 1 \<and>
   pauseMinutes specHelpers ''2026-02-24''
     (calculatePairMinutes specHelpers [clockIn ''08:00'', clockOut ''14:01'']) = 30 \<and>
   day_hours.minutes (calculateDayHours specHelpers (Some [clockIn ''08:00'', clockOut ''14:01''])
     ''2026-02-24'') = 331 \<and>
   pauseMinutes specHelpers ''2026-02-24''
     (calculatePairMinutes specHelpers [clockIn ''08:00'', clockOut ''14:00'']) = 0 \<and>
   day_hours.minutes (calculateDayHours specHelpers (Some [clockIn ''08:00'', clockOut ''14:00''])
     ''2026-02-24'') = 360 \<and>
   \<not> isFriday specHelpers (parseDateISO specHelpers ''2026-02-25'') \<and>
   2 \<le> pairCount (calculatePairMinutes specHelpers
     [clockIn ''08:00'', clockOut ''12:00'', clockIn ''12:20'', clockOut ''16:10'']) \<and>
   pauseMinutes specHelpers ''2026-02-25'' (calculatePairMinutes specHelpers
     [clockIn ''08:00'', clockOut ''12:00'', clockIn ''12:20'', clockOut ''16:10'']) = 10 \<and>
   day_hours.minutes (calculateDayHours specHelpers
     (Some [clockIn ''08:00'', clockOut ''12:00'', clockIn ''12:20'', clockOut ''16:10''])
     ''2026-02-25'') = 460"
  using
    break_policy [of "[clockIn ''08:00'', clockOut ''17:00'']" specHelpers "''2026-02-27''"]
    break_policy [of "[clockIn ''08:00'', clockOut ''14:01'']" specHelpers "''2026-02-24''"]
    break_policy [of "[clockIn ''08:00'', clockOut ''14:00'']" specHelpers "''2026-02-24''"]
    break_policy [of "[clockIn ''08:00'', clockOut ''12:00'', clockIn ''12:20'', clockOut ''16:10'']"
      specHelpers "''2026-02-25''"]
    friday_examples pair_examples
  by (simp add: Let_def clockIn_def)

subsection \<open>Pair resolver\<close>

text \<open>
  C2. For every ordered list of entries, with \<open>ins\<close> the times of the clock-in entries and
  \<open>outs\<close> the times of the clock-out entries, each in list order, \<^verbatim>\<open>calculatePairMinutes\<close>
  returns \<open>pairCount = min (length ins) (length outs)\<close>; \<open>workedMinutes\<close> is the sum over
  the pairs \<open>i < pairCount\<close> of \<open>outs[i] - ins[i]\<close> where that difference is strictly
  positive; \<open>hasIncomplete\<close> holds exactly when there are more clock-ins than clock-outs;
  \<open>breakMinutes\<close> is the sum over the boundaries \<open>i < pairCount - 1\<close> of
  \<open>ins[i+1] - outs[i]\<close> where that gap is strictly positive. A pair or boundary with an
  unparseable time adds 0 and the other terms of the sums are unaffected.
\<close>

theorem calculatePairMinutes_correct:
  "calculatePairMinutes H es =
     (let ins = map time (filter (\<lambda>e. type e = Entrata) es);
          outs = map time (filter (\<lambda>e. type e = Uscita) es);
          n = min (length ins) (length outs)
      in \<lparr>workedMinutes =
            (\<Sum>i<n. positiveDiff (parseTimeToMinutes H (ins ! i)) (parseTimeToMinutes H (outs ! i))),
          pair_minutes.hasIncomplete = (length ins > length outs),
          pairCount = n,
          pair_minutes.breakMinutes =
            (\<Sum>i<n - 1.
               positiveDiff (parseTimeToMinutes H (outs ! i)) (parseTimeToMinutes H (ins ! (i + 1))))\<rparr>)"
proof -
  define ins where "ins = map time (filter (\<lambda>e. type e = Entrata) es)"
  define outs where "outs = map time (filter (\<lambda>e. type e = Uscita) es)"
  define n where "n = min (length ins) (length outs)"
  have le: "n \<le> length ins" "n \<le> length outs" by (simp_all add: n_def)
  have "fold (pairStep H ins outs n) [0..<n] (0, 0) =
      ((\<Sum>i<n. positiveDiff (parseTimeToMinutes H (ins ! i)) (parseTimeToMinutes H (outs ! i))),
       (\<Sum>i<n - 1.
          positiveDiff (parseTimeToMinutes H (outs ! i)) (parseTimeToMinutes H (ins ! Suc i))))"
    using fold_pairStep [OF le, of n H 0 0] by simp
  then show ?thesis
    by (simp add: calculatePairMinutes_def Let_def ins_def outs_def n_def)
qed

subsection \<open>Special days and empty days\<close>



subsection \<open>Daily delta\<close>

text \<open>
  C5. For every entries argument and date key, \<^verbatim>\<open>calculateDayDelta\<close> returns null exactly
  when the list is missing, is empty, or is a single absent entry. In every other case the
  minutes of the result are the minutes of \<^verbatim>\<open>calculateDayHours\<close> less the daily target,
  which is 360 on a Friday and 450 on any other day, and the three flags give the sign of
  that difference.
\<close>

theorem calculateDayDelta_correct:
  "(calculateDayDelta H entries dk = None) =
     (entries = None \<or> entries = Some [] \<or> (\<exists>e. entries = Some [e] \<and> type e = Assente)) \<and>
   (\<forall>d. calculateDayDelta H entries dk = Some d \<longrightarrow>
      day_delta.minutes d =
        day_hours.minutes (calculateDayHours H entries dk) -
          (if isFriday H (parseDateISO H dk) then 360 else 450) \<and>
      day_delta.isPositive d = (day_delta.minutes d > 0) \<and>
      day_delta.isNegative d = (day_delta.minutes d < 0) \<and>
      day_delta.isNeutral d = (day_delta.minutes d = 0))"
proof -
  have target: "hoursToMinutes (getDailyTarget H dk) =
      (if isFriday H (parseDateISO H dk) then 360 else 450)"
    by (simp add: getDailyTarget_def hoursToMinutes_targets)
  have null: "(calculateDayDelta H entries dk = None) =
     (entries = None \<or> entries = Some [] \<or> (\<exists>e. entries = Some [e] \<and> type e = Assente))"
  proof (cases entries)
    case None
    then show ?thesis by (simp add: calculateDayDelta_def)
  next
    case (Some es)
    show ?thesis
    proof (cases es)
      case Nil
      with Some show ?thesis by (simp add: calculateDayDelta_def)
    next
      case (Cons e es')
      with Some show ?thesis
        by (cases es') (simp_all add: calculateDayDelta_def Let_def)
    qed
  qed
  have val: "\<forall>d. calculateDayDelta H entries dk = Some d \<longrightarrow>
      day_delta.minutes d =
        day_hours.minutes (calculateDayHours H entries dk) -
          (if isFriday H (parseDateISO H dk) then 360 else 450) \<and>
      day_delta.isPositive d = (day_delta.minutes d > 0) \<and>
      day_delta.isNegative d = (day_delta.minutes d < 0) \<and>
      day_delta.isNeutral d = (day_delta.minutes d = 0)"
    unfolding calculateDayDelta_def Let_def target
    by (auto split: option.splits if_splits)
  from null val show ?thesis by blast
qed

theorem calculateDayDelta_correct_witness:
  "calculateDayDelta specHelpers (Some [clockIn ''08:00'', clockOut ''17:00'']) ''2026-02-24'' =
     Some \<lparr>day_delta.minutes = 60, formatted = ''+1h'', isPositive = True, isNegative = False,
        isNeutral = False, hasIncomplete = False\<rparr> \<and>
   day_hours.minutes
     (calculateDayHours specHelpers (Some [clockIn ''08:00'', clockOut ''17:00'']) ''2026-02-24'')
     - (if isFriday specHelpers (parseDateISO specHelpers ''2026-02-24'') then 360 else 450) = 60"
proof -
  have h: "calculateDayDelta specHelpers (Some [clockIn ''08:00'', clockOut ''17:00''])
      ''2026-02-24'' =
     Some \<lparr>day_delta.minutes = 60, formatted = ''+1h'', isPositive = True, isNegative = False,
        isNeutral = False, hasIncomplete = False\<rparr>"
    by code_simp
  show ?thesis
    using h calculateDayDelta_correct
      [of specHelpers "Some [clockIn ''08:00'', clockOut ''17:00'']" "''2026-02-24''"]
    by simp
qed

subsection \<open>Week balance\<close>


subsection \<open>Friday predictor\<close>

lemma soleSpecial_iff:
  "soleSpecial es = (length es = 1 \<and> (type (es ! 0) = Smart \<or> type (es ! 0) = Assente))"
  by (cases es; cases "tl es") (auto simp add: soleSpecial_def)

lemma extraStep_eq:
  "extraStep H W fk dk a = (if dk = fk then a else a + deltaContribution H W dk)"
  by (auto simp add: extraStep_def deltaContribution_def split: option.splits)

lemma fold_extraStep:
  "fold (extraStep H W fk) ks a =
     a + sum_list (map (deltaContribution H W) (filter (\<lambda>dk. dk \<noteq> fk) ks))"
  by (induction ks arbitrary: a) (simp_all add: extraStep_eq)

lemma fold_extraStep_0:
  "fold (extraStep H W fk) ks 0 =
     sum_list (map (deltaContribution H W) (filter (\<lambda>dk. dk \<noteq> fk) ks))"
  by (simp add: fold_extraStep)

lemma friday_not_found:
  assumes "find (\<lambda>dk. isFriday H (parseDateISO H dk)) (sort (map fst W)) = None"
  shows "calculateFridayExitSuggestion H W = None"
  using assms by (simp add: calculateFridayExitSuggestion_def Let_def)

lemma friday_found:
  assumes "find (\<lambda>dk. isFriday H (parseDateISO H dk)) (sort (map fst W)) = Some fk"
  shows "calculateFridayExitSuggestion H W =
    (if fk = [] \<or> soleSpecial (dayEntries W fk) then None
     else
       Some \<lparr>exitTime =
               (if list_ex (\<lambda>e. type e = Entrata) (dayEntries W fk) \<and>
                   \<not> list_ex (\<lambda>e. type e = Uscita) (dayEntries W fk)
                then
                  (case find (\<lambda>e. type e = Entrata) (dayEntries W fk) of
                     None \<Rightarrow> None
                   | Some e \<Rightarrow>
                      (case parseTimeToMinutes H (time e) of
                         None \<Rightarrow> None
                       | Some m \<Rightarrow>
                           Some (minutesToTime H
                             (m + max 0 (360 - sum_list (map (deltaContribution H W)
                                (filter (\<lambda>dk. dk \<noteq> fk) (sort (map fst W)))))))))
                else None),
             extraMinutes =
               sum_list (map (deltaContribution H W)
                 (filter (\<lambda>dk. dk \<noteq> fk) (sort (map fst W)))),
             fridayTargetMinutes =
               max 0 (360 - sum_list (map (deltaContribution H W)
                 (filter (\<lambda>dk. dk \<noteq> fk) (sort (map fst W))))),
             fridayDateKey = fk,
             hasFridayEntrata = list_ex (\<lambda>e. type e = Entrata) (dayEntries W fk),
             hasFridayComplete =
               (list_ex (\<lambda>e. type e = Uscita) (dayEntries W fk) \<and>
                list_ex (\<lambda>e. type e = Entrata) (dayEntries W fk))\<rparr>)"
proof -
  have ne: "W \<noteq> []"
    using assms by auto
  show ?thesis
    unfolding calculateFridayExitSuggestion_def Let_def fold_extraStep_0 hoursToMinutes_targets
    using ne
    by (simp add: assms soleSpecial_iff dayEntries_def [symmetric])
qed

lemma suggestion_some:
  assumes "calculateFridayExitSuggestion H W = Some s"
  obtains fk where
    "find (\<lambda>dk. isFriday H (parseDateISO H dk)) (sort (map fst W)) = Some fk"
    "fk \<noteq> []" "\<not> soleSpecial (dayEntries W fk)"
    "fridayDateKey s = fk"
    "extraMinutes s =
       sum_list (map (deltaContribution H W) (filter (\<lambda>dk. dk \<noteq> fk) (sort (map fst W))))"
    "fridayTargetMinutes s = max 0 (360 - extraMinutes s)"
    "exitTime s =
       (if list_ex (\<lambda>e. type e = Entrata) (dayEntries W fk) \<and>
           \<not> list_ex (\<lambda>e. type e = Uscita) (dayEntries W fk)
        then
          (case find (\<lambda>e. type e = Entrata) (dayEntries W fk) of
             None \<Rightarrow> None
           | Some e \<Rightarrow>
              (case parseTimeToMinutes H (time e) of
                 None \<Rightarrow> None
               | Some m \<Rightarrow> Some (minutesToTime H (m + fridayTargetMinutes s))))
        else None)"
proof (cases "find (\<lambda>dk. isFriday H (parseDateISO H dk)) (sort (map fst W))")
  case None
  with assms show ?thesis by (simp add: friday_not_found)
next
  case (Some fk)
  note eq = friday_found [OF Some]
  from assms eq have ok: "fk \<noteq> []" "\<not> soleSpecial (dayEntries W fk)"
    by (auto split: if_splits)
  from assms ok have s: "s = the (calculateFridayExitSuggestion H W)" by simp
  show ?thesis
    by (rule that [of fk]) (use Some ok in \<open>simp_all add: s eq cong: option.case_cong\<close>)
qed

lemma example_suggestion:
  "calculateFridayExitSuggestion specHelpers exampleWeek =
     Some \<lparr>exitTime = Some ''13:05'', extraMinutes = 45, fridayTargetMinutes = 315,
           fridayDateKey = ''2026-02-27'', hasFridayEntrata = True,
           hasFridayComplete = False\<rparr>"
  by code_simp

lemma example_find:
  "find (\<lambda>dk. isFriday specHelpers (parseDateISO specHelpers dk))
     (sort (map fst [(''2026-02-27'', Some [smartDay 6])])) = Some ''2026-02-27''"
  by (simp add: friday_examples)

text \<open>
  C4. For every week mapping, \<^verbatim>\<open>calculateFridayExitSuggestion\<close> returns null when no date
  key of the mapping is a Friday, and returns null when the entries of the Friday it
  locates (the first Friday among the sorted keys) are a sole smart-working or absent
  record. Whenever it returns a suggestion, the accumulated extra minutes are the sum, over
  the date keys other than the located Friday, of the minutes of the day's delta, where a
  day without entries, a day without delta and a day whose delta carries \<open>hasIncomplete\<close>
  count 0. In a week mapping, whose keys are distinct and hold no second Friday, that is
  the sum over every date key that is not a Friday.
\<close>

theorem friday_null_and_accumulation:
  "((\<forall>dk \<in> set (map fst W). \<not> isFriday H (parseDateISO H dk)) \<longrightarrow>
      calculateFridayExitSuggestion H W = None) \<and>
   (\<forall>fk. find (\<lambda>dk. isFriday H (parseDateISO H dk)) (sort (map fst W)) = Some fk \<and>
         soleSpecial (dayEntries W fk) \<longrightarrow>
      calculateFridayExitSuggestion H W = None) \<and>
   (\<forall>s. calculateFridayExitSuggestion H W = Some s \<longrightarrow>
      extraMinutes s =
        sum_list (map (deltaContribution H W)
          (filter (\<lambda>dk. dk \<noteq> fridayDateKey s) (sort (map fst W)))) \<and>
      (distinct (map fst W) \<and>
       (\<forall>dk \<in> set (map fst W). isFriday H (parseDateISO H dk) \<longrightarrow> dk = fridayDateKey s) \<longrightarrow>
         extraMinutes s =
           (\<Sum>dk \<in> {dk \<in> set (map fst W). \<not> isFriday H (parseDateISO H dk)}.
              deltaContribution H W dk)))"
proof (intro conjI allI impI)
  assume "\<forall>dk \<in> set (map fst W). \<not> isFriday H (parseDateISO H dk)"
  then have "find (\<lambda>dk. isFriday H (parseDateISO H dk)) (sort (map fst W)) = None"
    by (simp add: find_None_iff)
  then show "calculateFridayExitSuggestion H W = None"
    by (rule friday_not_found)
next
  fix fk
  assume "find (\<lambda>dk. isFriday H (parseDateISO H dk)) (sort (map fst W)) = Some fk \<and>
    soleSpecial (dayEntries W fk)"
  then show "calculateFridayExitSuggestion H W = None"
    by (simp add: friday_found)
next
  fix s
  assume "calculateFridayExitSuggestion H W = Some s"
  then show "extraMinutes s =
      sum_list (map (deltaContribution H W)
        (filter (\<lambda>dk. dk \<noteq> fridayDateKey s) (sort (map fst W))))"
    by (elim suggestion_some) simp
next
  fix s
  assume some: "calculateFridayExitSuggestion H W = Some s"
    and wf: "distinct (map fst W) \<and>
      (\<forall>dk \<in> set (map fst W). isFriday H (parseDateISO H dk) \<longrightarrow> dk = fridayDateKey s)"
  from some obtain fk where
    fk: "find (\<lambda>dk. isFriday H (parseDateISO H dk)) (sort (map fst W)) = Some fk"
      "fridayDateKey s = fk"
    and extra: "extraMinutes s =
      sum_list (map (deltaContribution H W) (filter (\<lambda>dk. dk \<noteq> fk) (sort (map fst W))))"
    by (elim suggestion_some)
  from fk(1) have fri: "isFriday H (parseDateISO H fk)"
    by (auto simp add: find_Some_iff)
  have "distinct (filter (\<lambda>dk. dk \<noteq> fk) (sort (map fst W)))"
    using wf by simp
  then have "extraMinutes s = sum (deltaContribution H W)
      (set (filter (\<lambda>dk. dk \<noteq> fk) (sort (map fst W))))"
    unfolding extra by (rule sum_list_distinct_conv_sum_set)
  moreover have "set (filter (\<lambda>dk. dk \<noteq> fk) (sort (map fst W))) =
      {dk \<in> set (map fst W). \<not> isFriday H (parseDateISO H dk)}"
    using wf fri fk(2) by auto
  ultimately show "extraMinutes s =
      (\<Sum>dk \<in> {dk \<in> set (map fst W). \<not> isFriday H (parseDateISO H dk)}.
         deltaContribution H W dk)"
    by simp
qed

theorem friday_null_and_accumulation_witness:
  "\<not> isFriday specHelpers (parseDateISO specHelpers ''2026-02-23'') \<and>
   calculateFridayExitSuggestion specHelpers
     [(''2026-02-23'', Some [clockIn ''08:00'', clockOut ''16:30''])] = None \<and>
   soleSpecial (dayEntries [(''2026-02-27'', Some [smartDay 6])] ''2026-02-27'') \<and>
   calculateFridayExitSuggestion specHelpers [(''2026-02-27'', Some [smartDay 6])] = None \<and>
   distinct (map fst exampleWeek) \<and>
   calculateFridayExitSuggestion specHelpers exampleWeek =
     Some \<lparr>exitTime = Some ''13:05'', extraMinutes = 45, fridayTargetMinutes = 315,
           fridayDateKey = ''2026-02-27'', hasFridayEntrata = True,
           hasFridayComplete = False\<rparr> \<and>
   (\<Sum>dk \<in> {dk \<in> set (map fst exampleWeek).
              \<not> isFriday specHelpers (parseDateISO specHelpers dk)}.
      deltaContribution specHelpers exampleWeek dk) = 45"
proof -
  have special: "soleSpecial (dayEntries [(''2026-02-27'', Some [smartDay 6])] ''2026-02-27'')"
    by (simp add: soleSpecial_def dayEntries_def lookup_def smartDay_def)
  have none1: "calculateFridayExitSuggestion specHelpers
     [(''2026-02-23'', Some [clockIn ''08:00'', clockOut ''16:30''])] = None"
    using friday_null_and_accumulation
      [of "[(''2026-02-23'', Some [clockIn ''08:00'', clockOut ''16:30''])]" specHelpers]
    by (simp add: friday_examples)
  have none2: "calculateFridayExitSuggestion specHelpers [(''2026-02-27'', Some [smartDay 6])] = None"
    using friday_null_and_accumulation [of "[(''2026-02-27'', Some [smartDay 6])]" specHelpers]
      example_find special
    by blast
  have d: "distinct (map fst exampleWeek)"
    by (simp add: exampleWeek_def)
  have u: "\<forall>dk \<in> set (map fst exampleWeek).
      isFriday specHelpers (parseDateISO specHelpers dk) \<longrightarrow> dk = ''2026-02-27''"
    by (simp add: exampleWeek_def friday_examples)
  have "(\<Sum>dk \<in> {dk \<in> set (map fst exampleWeek).
              \<not> isFriday specHelpers (parseDateISO specHelpers dk)}.
      deltaContribution specHelpers exampleWeek dk) = 45"
    using friday_null_and_accumulation [of exampleWeek specHelpers] example_suggestion d u
    by simp
  with none1 none2 special d example_suggestion show ?thesis
    by (simp add: friday_examples)
qed

lemma example_open_friday:
  "calculateFridayExitSuggestion specHelpers
     [(''2026-02-27'', Some [clockIn ''08:00'', clockOut ''12:00'', clockIn ''12:30''])] =
     Some \<lparr>exitTime = None, extraMinutes = 0, fridayTargetMinutes = 360,
           fridayDateKey = ''2026-02-27'', hasFridayEntrata = True,
           hasFridayComplete = True\<rparr>"
  by code_simp

lemma example_two_clock_ins:
  "calculateFridayExitSuggestion specHelpers
     [(''2026-02-27'', Some [clockIn ''07:50'', clockIn ''09:00''])] =
     Some \<lparr>exitTime = Some ''13:50'', extraMinutes = 0, fridayTargetMinutes = 360,
           fridayDateKey = ''2026-02-27'', hasFridayEntrata = True,
           hasFridayComplete = False\<rparr>"
  by code_simp

lemma example_parse:
  "parseTimeToMinutes specHelpers (time (clockIn ''07:50'')) = Some 470"
  "minutesToTime specHelpers (470 + 315) = ''13:05''"
  "minutesToTime specHelpers (470 + 360) = ''13:50''"
  by code_simp+

text \<open>
  C3 as the specification states it: the exit time is the Friday clock-in time plus the
  adjusted target when Friday has an open clock-in with no matching clock-out. It fails on
  a Friday whose list is clock-in, clock-out, clock-in: the pair resolver reports the open
  clock-in (\<open>hasIncomplete\<close>), and the suggestion carries no exit time.
\<close>

theorem friday_open_clock_in_counterexample:
  "pair_minutes.hasIncomplete (calculatePairMinutes specHelpers
      [clockIn ''08:00'', clockOut ''12:00'', clockIn ''12:30'']) \<and>
   calculateFridayExitSuggestion specHelpers
     [(''2026-02-27'', Some [clockIn ''08:00'', clockOut ''12:00'', clockIn ''12:30''])] =
     Some \<lparr>exitTime = None, extraMinutes = 0, fridayTargetMinutes = 360,
           fridayDateKey = ''2026-02-27'', hasFridayEntrata = True,
           hasFridayComplete = True\<rparr>"
  by code_simp

text \<open>
  C3, amended. For every week mapping in which a Friday key is located (the first Friday
  among the sorted keys, not the empty string) whose entries are not a sole smart-working
  or absent record, a suggestion is returned for that key. In every returned suggestion
  the adjusted target is \<open>max 0 (360 - extraMinutes)\<close>; the exit time is the time of the
  first Friday clock-in plus the adjusted target when the Friday list has a clock-in, has
  no clock-out entry at all, and that clock-in time parses; the exit time is null when the
  Friday list has no clock-in, has any clock-out, or the first clock-in time does not
  parse. In the example week the Monday to Thursday deltas sum to +45 (the day with the
  open clock-in left out) and Friday holds only a 07:50 clock-in: the adjusted target is
  315 and the exit time 13:05.
\<close>

theorem friday_target_and_exit:
  "(\<forall>fk. find (\<lambda>dk. isFriday H (parseDateISO H dk)) (sort (map fst W)) = Some fk \<and>
         fk \<noteq> [] \<and> \<not> soleSpecial (dayEntries W fk) \<longrightarrow>
      (\<exists>s. calculateFridayExitSuggestion H W = Some s \<and> fridayDateKey s = fk)) \<and>
   (\<forall>s. calculateFridayExitSuggestion H W = Some s \<longrightarrow>
      fridayTargetMinutes s = max 0 (360 - extraMinutes s) \<and>
      (\<forall>e m. find (\<lambda>e. type e = Entrata) (dayEntries W (fridayDateKey s)) = Some e \<and>
             \<not> list_ex (\<lambda>e. type e = Uscita) (dayEntries W (fridayDateKey s)) \<and>
             parseTimeToMinutes H (time e) = Some m \<longrightarrow>
         exitTime s = Some (minutesToTime H (m + fridayTargetMinutes s))) \<and>
      (\<not> list_ex (\<lambda>e. type e = Entrata) (dayEntries W (fridayDateKey s)) \<or>
       list_ex (\<lambda>e. type e = Uscita) (dayEntries W (fridayDateKey s)) \<or>
       (\<exists>e. find (\<lambda>e. type e = Entrata) (dayEntries W (fridayDateKey s)) = Some e \<and>
            parseTimeToMinutes H (time e) = None) \<longrightarrow>
         exitTime s = None)) \<and>
   calculateFridayExitSuggestion specHelpers exampleWeek =
     Some \<lparr>exitTime = Some ''13:05'', extraMinutes = 45, fridayTargetMinutes = 315,
           fridayDateKey = ''2026-02-27'', hasFridayEntrata = True,
           hasFridayComplete = False\<rparr>"
proof (intro conjI allI impI)
  fix fk
  assume "find (\<lambda>dk. isFriday H (parseDateISO H dk)) (sort (map fst W)) = Some fk \<and>
    fk \<noteq> [] \<and> \<not> soleSpecial (dayEntries W fk)"
  then show "\<exists>s. calculateFridayExitSuggestion H W = Some s \<and> fridayDateKey s = fk"
    by (simp add: friday_found)
next
  fix s
  assume "calculateFridayExitSuggestion H W = Some s"
  then show "fridayTargetMinutes s = max 0 (360 - extraMinutes s)"
    by (elim suggestion_some)
next
  fix s e m
  assume some: "calculateFridayExitSuggestion H W = Some s"
    and open_in: "find (\<lambda>e. type e = Entrata) (dayEntries W (fridayDateKey s)) = Some e \<and>
      \<not> list_ex (\<lambda>e. type e = Uscita) (dayEntries W (fridayDateKey s)) \<and>
      parseTimeToMinutes H (time e) = Some m"
  from open_in have "list_ex (\<lambda>e. type e = Entrata) (dayEntries W (fridayDateKey s))"
    by (auto simp add: find_Some_iff list_ex_iff)
  with some open_in show "exitTime s = Some (minutesToTime H (m + fridayTargetMinutes s))"
    by (elim suggestion_some) simp
next
  fix s
  assume some: "calculateFridayExitSuggestion H W = Some s"
    and closed: "\<not> list_ex (\<lambda>e. type e = Entrata) (dayEntries W (fridayDateKey s)) \<or>
      list_ex (\<lambda>e. type e = Uscita) (dayEntries W (fridayDateKey s)) \<or>
      (\<exists>e. find (\<lambda>e. type e = Entrata) (dayEntries W (fridayDateKey s)) = Some e \<and>
           parseTimeToMinutes H (time e) = None)"
  from some closed show "exitTime s = None"
    by (elim suggestion_some) auto
next
  show "calculateFridayExitSuggestion specHelpers exampleWeek =
     Some \<lparr>exitTime = Some ''13:05'', extraMinutes = 45, fridayTargetMinutes = 315,
           fridayDateKey = ''2026-02-27'', hasFridayEntrata = True,
           hasFridayComplete = False\<rparr>"
    by (rule example_suggestion)
qed

theorem friday_target_and_exit_witness:
  "calculateFridayExitSuggestion specHelpers exampleWeek =
     Some \<lparr>exitTime = Some ''13:05'', extraMinutes = 45, fridayTargetMinutes = 315,
           fridayDateKey = ''2026-02-27'', hasFridayEntrata = True,
           hasFridayComplete = False\<rparr> \<and>
   find (\<lambda>e. type e = Entrata) (dayEntries exampleWeek ''2026-02-27'') =
     Some (clockIn ''07:50'') \<and>
   \<not> list_ex (\<lambda>e. type e = Uscita) (dayEntries exampleWeek ''2026-02-27'') \<and>
   parseTimeToMinutes specHelpers (time (clockIn ''07:50'')) = Some 470 \<and>
   Some ''13:05'' = Some (minutesToTime specHelpers (470 + 315)) \<and>
   (315 :: int) = max 0 (360 - 45) \<and>
   list_ex (\<lambda>e. type e = Uscita)
     (dayEntries [(''2026-02-27'', Some [clockIn ''08:00'', clockOut ''12:00'', clockIn ''12:30''])]
        ''2026-02-27'') \<and>
   exitTime (the (calculateFridayExitSuggestion specHelpers
     [(''2026-02-27'', Some [clockIn ''08:00'', clockOut ''12:00'', clockIn ''12:30''])])) = None"
proof -
  have f: "find (\<lambda>e. type e = Entrata) (dayEntries exampleWeek ''2026-02-27'') =
      Some (clockIn ''07:50'')"
    "\<not> list_ex (\<lambda>e. type e = Uscita) (dayEntries exampleWeek ''2026-02-27'')"
    by (simp_all add: dayEntries_def lookup_def exampleWeek_def clockIn_def)
  have g: "list_ex (\<lambda>e. type e = Uscita)
     (dayEntries [(''2026-02-27'', Some [clockIn ''08:00'', clockOut ''12:00'', clockIn ''12:30''])]
        ''2026-02-27'')"
    by (simp add: dayEntries_def lookup_def clockOut_def)
  have a: "Some ''13:05'' = Some (minutesToTime specHelpers (470 + 315)) \<and>
      (315 :: int) = max 0 (360 - 45)"
    using friday_target_and_exit [of specHelpers exampleWeek] example_suggestion f example_parse(1)
    by simp
  have b: "exitTime (the (calculateFridayExitSuggestion specHelpers
     [(''2026-02-27'', Some [clockIn ''08:00'', clockOut ''12:00'', clockIn ''12:30''])])) = None"
    using friday_target_and_exit [of specHelpers
        "[(''2026-02-27'', Some [clockIn ''08:00'', clockOut ''12:00'', clockIn ''12:30''])]"]
      example_open_friday g
    by simp
  from a b f g example_suggestion example_parse(1) show ?thesis
    by simp
qed

text \<open>
  C10. In every returned suggestion, when the Friday list has a clock-in entry and no
  clock-out entry, the exit time is computed from the first clock-in entry in list order
  alone, whatever clock-ins follow it; and the exit time is null whenever the Friday list
  holds a clock-out entry, also when a later clock-in is unmatched.
\<close>

theorem friday_exit_first_clock_in:
  "\<forall>s. calculateFridayExitSuggestion H W = Some s \<longrightarrow>
     (\<forall>pre e post.
        dayEntries W (fridayDateKey s) = pre @ e # post \<and> type e = Entrata \<and>
        (\<forall>x \<in> set pre. type x \<noteq> Entrata) \<and> (\<forall>x \<in> set (pre @ post). type x \<noteq> Uscita) \<longrightarrow>
        exitTime s =
          map_option (\<lambda>m. minutesToTime H (m + fridayTargetMinutes s))
            (parseTimeToMinutes H (time e))) \<and>
     ((\<exists>x \<in> set (dayEntries W (fridayDateKey s)). type x = Uscita) \<longrightarrow> exitTime s = None)"
proof (intro allI impI conjI)
  fix s pre e post
  assume some: "calculateFridayExitSuggestion H W = Some s"
    and shape: "dayEntries W (fridayDateKey s) = pre @ e # post \<and> type e = Entrata \<and>
      (\<forall>x \<in> set pre. type x \<noteq> Entrata) \<and> (\<forall>x \<in> set (pre @ post). type x \<noteq> Uscita)"
  from shape have first: "find (\<lambda>e. type e = Entrata) (dayEntries W (fridayDateKey s)) = Some e"
    by (auto simp add: find_Some_iff nth_append intro!: exI [of _ "length pre"])
  from shape have ex: "list_ex (\<lambda>e. type e = Entrata) (dayEntries W (fridayDateKey s))"
    "\<not> list_ex (\<lambda>e. type e = Uscita) (dayEntries W (fridayDateKey s))"
    by (auto simp add: list_ex_iff)
  from some first ex show "exitTime s =
      map_option (\<lambda>m. minutesToTime H (m + fridayTargetMinutes s))
        (parseTimeToMinutes H (time e))"
    by (elim suggestion_some) (simp split: option.splits)
next
  fix s
  assume some: "calculateFridayExitSuggestion H W = Some s"
    and out: "\<exists>x \<in> set (dayEntries W (fridayDateKey s)). type x = Uscita"
  from out have "list_ex (\<lambda>e. type e = Uscita) (dayEntries W (fridayDateKey s))"
    by (simp add: list_ex_iff)
  with some show "exitTime s = None"
    by (elim suggestion_some) simp
qed

theorem friday_exit_first_clock_in_witness:
  "calculateFridayExitSuggestion specHelpers
     [(''2026-02-27'', Some [clockIn ''07:50'', clockIn ''09:00''])] =
     Some \<lparr>exitTime = Some ''13:50'', extraMinutes = 0, fridayTargetMinutes = 360,
           fridayDateKey = ''2026-02-27'', hasFridayEntrata = True,
           hasFridayComplete = False\<rparr> \<and>
   dayEntries [(''2026-02-27'', Some [clockIn ''07:50'', clockIn ''09:00''])] ''2026-02-27'' =
     [] @ clockIn ''07:50'' # [clockIn ''09:00''] \<and>
   Some ''13:50'' =
     map_option (\<lambda>m. minutesToTime specHelpers (m + 360))
       (parseTimeToMinutes specHelpers (time (clockIn ''07:50''))) \<and>
   type (clockOut ''12:00'') = Uscita \<and>
   exitTime (the (calculateFridayExitSuggestion specHelpers
     [(''2026-02-27'', Some [clockIn ''08:00'', clockOut ''12:00'', clockIn ''12:30''])])) = None"
proof -
  have d: "dayEntries [(''2026-02-27'', Some [clockIn ''07:50'', clockIn ''09:00''])]
      ''2026-02-27'' = [] @ clockIn ''07:50'' # [clockIn ''09:00'']"
    by (simp add: dayEntries_def lookup_def)
  have a: "Some ''13:50'' =
     map_option (\<lambda>m. minutesToTime specHelpers (m + 360))
       (parseTimeToMinutes specHelpers (time (clockIn ''07:50'')))"
    using friday_exit_first_clock_in
        [of specHelpers "[(''2026-02-27'', Some [clockIn ''07:50'', clockIn ''09:00''])]",
          rule_format, OF example_two_clock_ins, THEN conjunct1, rule_format,
          of "[]" "clockIn ''07:50''" "[clockIn ''09:00'']"] d
    by (simp add: clockIn_def)
  have g: "\<exists>x \<in> set (dayEntries
      [(''2026-02-27'', Some [clockIn ''08:00'', clockOut ''12:00'', clockIn ''12:30''])]
      ''2026-02-27''). type x = Uscita"
    by (simp add: dayEntries_def lookup_def clockOut_def)
  have b: "exitTime (the (calculateFridayExitSuggestion specHelpers
     [(''2026-02-27'', Some [clockIn ''08:00'', clockOut ''12:00'', clockIn ''12:30''])])) = None"
    using friday_exit_first_clock_in [of specHelpers
        "[(''2026-02-27'', Some [clockIn ''08:00'', clockOut ''12:00'', clockIn ''12:30''])]"]
      example_open_friday g
    by simp
  from a b d example_two_clock_ins show ?thesis
    by (simp add: clockOut_def)
qed

subsection \<open>Time helpers\<close>

lemma showNat_digit: "n < 10 \<Longrightarrow> showNat n = [char_of (48 + n)]"
  by (subst showNat.simps) simp

lemma char_of_48: "char_of (48 :: nat) = CHR ''0''"
  by code_simp

lemma pad2_two_digits:
  assumes "n < 100"
  shows "pad2 n = [char_of (48 + n div 10), char_of (48 + n mod 10)]"
proof (cases "n < 10")
  case True
  then show ?thesis by (simp add: pad2_def showNat_digit char_of_48)
next
  case False
  with assms have "n div 10 < 10" by simp
  with False show ?thesis
    by (subst pad2_def, subst showNat.simps) (simp add: showNat_digit)
qed

lemma digit_char:
  assumes "d < 10"
  shows "isDigit (char_of (48 + d))" "digitVal (char_of (48 + d)) = d"
  using assms by (simp_all add: isDigit_def digitVal_def)

lemma parseTime_two_digits:
  assumes "h < 24" "m < 60"
  shows "parseTime (pad2 h @ '':'' @ pad2 m) = Some (int (60 * h + m))"
proof -
  have d: "h div 10 < 10" "h mod 10 < 10" "m div 10 < 10" "m mod 10 < 10"
    using assms by simp_all
  have "h < 100" "m < 100" using assms by simp_all
  then show ?thesis
    using assms by (simp add: pad2_two_digits digit_char [OF d(1)] digit_char [OF d(2)]
        digit_char [OF d(3)] digit_char [OF d(4)] Let_def)
qed

lemma parseTime_Some_wellFormed: "parseTime s = Some v \<Longrightarrow> wellFormedTime s"
  by (cases s rule: parseTime.cases) (auto simp add: wellFormedTime_def Let_def split: if_splits)

text \<open>
  C9. For every integer \<open>m\<close> with \<open>0 \<le> m < 1440\<close>, parsing the formatted minutes gives
  \<open>m\<close> back; and \<open>parseTime\<close> returns null for every string that is not a well-formed
  \<^verbatim>\<open>HH:MM\<close> time.
\<close>

theorem parseTime_formatMinutes:
  "(0 \<le> m \<and> m < 1440 \<longrightarrow> parseTime (formatMinutes m) = Some m) \<and>
   (\<not> wellFormedTime s \<longrightarrow> parseTime s = None)"
proof (intro conjI impI)
  assume range: "0 \<le> m \<and> m < 1440"
  define a where "a = nat \<bar>m\<bar>"
  from range have a: "int a = m" "a < 1440" unfolding a_def by linarith+
  then have "a div 60 < 24" "a mod 60 < 60" by simp_all
  then have "parseTime (pad2 (a div 60) @ '':'' @ pad2 (a mod 60)) =
      Some (int (60 * (a div 60) + a mod 60))"
    by (rule parseTime_two_digits)
  moreover have "formatMinutes m = pad2 (a div 60) @ '':'' @ pad2 (a mod 60)"
    using range by (simp add: formatMinutes_def Let_def a_def)
  ultimately show "parseTime (formatMinutes m) = Some m"
    using a(1) by simp
next
  assume "\<not> wellFormedTime s"
  then show "parseTime s = None"
    using parseTime_Some_wellFormed [of s] by (cases "parseTime s") auto
qed

theorem parseTime_formatMinutes_witness:
  "(0 :: int) \<le> 785 \<and> (785 :: int) < 1440 \<and> parseTime (formatMinutes 785) = Some 785 \<and>
   \<not> wellFormedTime ''24:00'' \<and> parseTime ''24:00'' = None \<and>
   \<not> wellFormedTime ''8h'' \<and> parseTime ''8h'' = None"
proof -
  have w: "\<not> wellFormedTime ''24:00''" "\<not> wellFormedTime ''8h''"
    by (simp_all add: wellFormedTime_def digitVal_def)
  show ?thesis
    using parseTime_formatMinutes [of 785 "''24:00''"] parseTime_formatMinutes [of 785 "''8h''"] w
    by simp
qed

subsection \<open>Totality and malformed times\<close>



lemma positiveDiff_None [simp]: "positiveDiff None b = 0" "positiveDiff a None = 0"
  by (simp_all add: positiveDiff_def split: option.splits)

lemma positiveDiff_nonneg: "0 \<le> positiveDiff a b"
  by (simp add: positiveDiff_def split: option.splits)






end
